theory Spec2Isabelle
  imports Complex_Main "HOL-Library.Sublist"
begin

section \<open>JavaScript values used by the dataset model\<close>

text \<open>
  The numbers of the manifests are finite (JSON has no literal for NaN or an infinity), so a
  number read from a manifest is a \<open>real\<close>; arithmetic on them is the exact one (rounding
  of the doubles is left out). A number computed by the code can also be NaN
  (\<open>Math.abs(undefined)\<close>, \<open>Math.min(undefined, 8)\<close>). A property or an array element
  that may be \<open>undefined\<close> is an \<open>option\<close>, \<open>None\<close> being \<open>undefined\<close>.
\<close>

datatype number = Num real | NaN

text \<open>\<open>Array.prototype.indexOf\<close>: the first position of the element, \<open>-1\<close> when absent.\<close>

fun indexOf_from :: "'a list \<Rightarrow> 'a \<Rightarrow> nat \<Rightarrow> int" where
  "indexOf_from [] a i = - 1"
| "indexOf_from (b # bs) a i = (if b = a then int i else indexOf_from bs a (Suc i))"

definition indexOf :: "'a list \<Rightarrow> 'a \<Rightarrow> int" where
  "indexOf bs a = indexOf_from bs a 0"

text \<open>\<open>arr[i]\<close>: reading outside the array (also at \<open>-1\<close>) gives \<open>undefined\<close>.\<close>

definition element :: "'a list \<Rightarrow> int \<Rightarrow> 'a option" where
  "element bs i = (if 0 \<le> i \<and> i < int (length bs) then Some (bs ! nat i) else None)"

text \<open>\<open>Math.abs\<close>: \<open>undefined\<close> converts to NaN.\<close>

fun Math_abs :: "real option \<Rightarrow> number" where
  "Math_abs None = NaN"
| "Math_abs (Some r) = Num \<bar>r\<bar>"

text \<open>\<open>c * n\<close> for a finite constant \<open>c\<close>.\<close>

fun times_number :: "real \<Rightarrow> number \<Rightarrow> number" where
  "times_number c NaN = NaN"
| "times_number c (Num r) = Num (c * r)"

text \<open>\<open>v < 0\<close>: \<open>undefined\<close> converts to NaN, and every comparison with NaN is false.\<close>

fun less_zero :: "real option \<Rightarrow> bool" where
  "less_zero None = False"
| "less_zero (Some r) = (r < 0)"

text \<open>\<open>Math.min(a, b)\<close>: NaN as soon as one argument converts to NaN.\<close>

fun Math_min :: "real option \<Rightarrow> real option \<Rightarrow> number" where
  "Math_min (Some a) (Some b) = Num (min a b)"
| "Math_min _ _ = NaN"

section \<open>Coordinate transform\<close>

record SpatialTransform =
  axes :: "string list"
  units :: "string list"
  translate :: "real list"
  scale :: "real list"

text \<open>A coordinate space has the three axes \<open>x\<close>, \<open>y\<close>, \<open>z\<close>, each a pair of a
  unit size and a unit name.\<close>

record CoordinateSpace =
  space_x :: "number \<times> string"
  space_y :: "number \<times> string"
  space_z :: "number \<times> string"

record CoordinateSpaceTransform =
  matrix :: "real option list list"
  outputDimensions :: CoordinateSpace
  inputDimensions :: CoordinateSpace

definition SpatialTransformToNeuroglancer ::
  "SpatialTransform \<Rightarrow> CoordinateSpace \<Rightarrow> CoordinateSpaceTransform" where
  "SpatialTransformToNeuroglancer transform outDims =
     (let inDims = \<lparr>
            space_x = (times_number (1 / 10 ^ 9) (Math_abs (element (scale transform) (indexOf (axes transform) ''x''))), ''m''),
            space_y = (times_number (1 / 10 ^ 9) (Math_abs (element (scale transform) (indexOf (axes transform) ''y''))), ''m''),
            space_z = (times_number (1 / 10 ^ 9) (Math_abs (element (scale transform) (indexOf (axes transform) ''z''))), ''m'') \<rparr>
      in \<lparr> matrix =
             [[Some (if less_zero (element (scale transform) (indexOf (axes transform) ''x'')) then - 1 else 1),
               Some 0, Some 0, element (translate transform) (indexOf (axes transform) ''x'')],
              [Some 0,
               Some (if less_zero (element (scale transform) (indexOf (axes transform) ''y'')) then - 1 else 1),
               Some 0, element (translate transform) (indexOf (axes transform) ''y'')],
              [Some 0, Some 0,
               Some (if less_zero (element (scale transform) (indexOf (axes transform) ''z'')) then - 1 else 1),
               element (translate transform) (indexOf (axes transform) ''z'')]],
           outputDimensions = outDims,
           inputDimensions = inDims \<rparr>)"

text \<open>One nanometer, expressed as a scaled meter, and the output space of every layer.\<close>

definition nm :: "number \<times> string" where
  "nm = (Num (1 / 10 ^ 9), ''m'')"

definition outputDims :: CoordinateSpace where
  "outputDims = \<lparr> space_x = nm, space_y = nm, space_z = nm \<rparr>"

section \<open>Numbers as text\<close>

text \<open>
  \<open>Number.prototype.toString\<close>, also used by a template literal: NaN prints as \<open>NaN\<close>, an
  integer below \<open>10^21\<close> in absolute value prints as its decimal digits. The text of any other
  finite number is the parameter \<open>fmt\<close>.
\<close>

fun decimal :: "nat \<Rightarrow> string" where
  "decimal n = (if n < 10 then [''0123456789'' ! n]
                else decimal (n div 10) @ [''0123456789'' ! (n mod 10)])"

declare decimal.simps [simp del]

definition Number_toString :: "(real \<Rightarrow> string) \<Rightarrow> number \<Rightarrow> string" where
  "Number_toString fmt n =
     (case n of
        NaN \<Rightarrow> ''NaN''
      | Num r \<Rightarrow>
          if r = of_int \<lfloor>r\<rfloor> \<and> \<bar>r\<bar> < 10 ^ 21
          then (if r < 0 then ''-'' @ decimal (nat \<lfloor>- r\<rfloor>) else decimal (nat \<lfloor>r\<rfloor>))
          else fmt r)"

text \<open>A string property inside a template literal: \<open>undefined\<close> prints as \<open>undefined\<close>.\<close>

fun String_of :: "string option \<Rightarrow> string" where
  "String_of None = ''undefined''"
| "String_of (Some s) = s"

section \<open>Shader synthesizer\<close>

record ContrastLimits =
  limits_min :: real
  limits_max :: real
  limits_start :: real
  limits_end :: real

record DisplaySettings =
  contrastLimits :: ContrastLimits
  invertLUT :: bool
  color :: "string option"

text \<open>The sample type is the string of the manifest, so that a value other than
  \<open>scalar\<close> and \<open>label\<close> reaches the \<open>default\<close> branch.\<close>

definition makeShader :: "(real \<Rightarrow> string) \<Rightarrow> DisplaySettings \<Rightarrow> string \<Rightarrow> string option" where
  \<open>makeShader fmt shaderArgs sampleType =
     (if sampleType = ''scalar'' then
        (let lower = limits_min (contrastLimits shaderArgs);
             upper = limits_max (contrastLimits shaderArgs);
             cmin = limits_start (contrastLimits shaderArgs);
             cmax = limits_end (contrastLimits shaderArgs)
         in Some (''#uicontrol invlerp normalized(range=['' @ Number_toString fmt (Num cmin)
              @ '', '' @ Number_toString fmt (Num cmax)
              @ ''], window=['' @ Number_toString fmt (Num lower)
              @ '', '' @ Number_toString fmt (Num upper) @ ''])\<newline>''
              @ ''        #uicontrol int invertColormap slider(min=0, max=1, step=1, default=''
              @ (if invertLUT shaderArgs then ''1'' else ''0'') @ '')\<newline>''
              @ ''        #uicontrol vec3 color color(default="'' @ String_of (color shaderArgs) @ ''")\<newline>''
              @ ''        float inverter(float val, int invert) {return 0.5 + ((2.0 * (-float(invert) + 0.5)) * (val - 0.5));}\<newline>''
              @ ''          void main() {\<newline>''
              @ ''          emitRGB(color * inverter(normalized(), invertColormap));\<newline>''
              @ ''        }''))
      else if sampleType = ''label'' then Some []
      else None)\<close>

section \<open>Layers\<close>

datatype VolumeStores = n5 | precomputed | zarr

fun store_name :: "VolumeStores \<Rightarrow> string" where
  "store_name n5 = ''n5''"
| "store_name precomputed = ''precomputed''"
| "store_name zarr = ''zarr''"

datatype LayerTypes = image | segmentation | annotation | mesh

record MeshSource =
  mesh_url :: string
  mesh_transform :: SpatialTransform
  ids :: "nat list"

record Volume =
  url :: string
  volume_name :: string
  transform :: SpatialTransform
  contentType :: string
  sampleType :: string
  format :: VolumeStores
  displaySettings :: DisplaySettings
  volume_description :: string
  subsources :: "MeshSource list"

record LayerDataSource2 =
  source_url :: string
  source_transform :: CoordinateSpaceTransform
  source_CoordinateSpaceTransform :: CoordinateSpaceTransform

text \<open>A segmentation layer receives either the one source or the array of the source and
  the sub-sources.\<close>

datatype Sources = Single LayerDataSource2 | Many "LayerDataSource2 list"

text \<open>
  The two layer classes, with the constructor arguments that \<open>makeLayer\<close> passes, in the
  order it passes them (the arguments passed as \<open>undefined\<close> are left out). An image layer
  has an opacity and a blend mode; a segmentation layer is given neither.
\<close>

datatype Layer =
    ImageLayer string string LayerDataSource2 real string "string option"
  | SegmentationLayer string bool string Sources "nat list option" bool "string option"

fun layer_name :: "Layer \<Rightarrow> string" where
  "layer_name (ImageLayer tab nam src op bl sh) = nam"
| "layer_name (SegmentationLayer tab pick nam srcs segs hide col) = nam"

fun opacity :: "Layer \<Rightarrow> real option" where
  "opacity (ImageLayer tab nam src op bl sh) = Some op"
| "opacity (SegmentationLayer tab pick nam srcs segs hide col) = None"

fun blend :: "Layer \<Rightarrow> string option" where
  "blend (ImageLayer tab nam src op bl sh) = Some bl"
| "blend (SegmentationLayer tab pick nam srcs segs hide col) = None"

definition makeLayer :: "(real \<Rightarrow> string) \<Rightarrow> Volume \<Rightarrow> LayerTypes \<Rightarrow> Layer option" where
  "makeLayer fmt volume layerType =
     (let srcURL = store_name (format volume) @ ''://'' @ url volume;
          source = \<lparr> source_url = srcURL,
                     source_transform = SpatialTransformToNeuroglancer (transform volume) outputDims,
                     source_CoordinateSpaceTransform =
                       SpatialTransformToNeuroglancer (transform volume) outputDims \<rparr>;
          subs = map (\<lambda>subsource.
                     \<lparr> source_url = ''precomputed://'' @ mesh_url subsource,
                       source_transform =
                         SpatialTransformToNeuroglancer (mesh_transform subsource) outputDims,
                       source_CoordinateSpaceTransform =
                         SpatialTransformToNeuroglancer (mesh_transform subsource) outputDims \<rparr>)
                   (subsources volume);
          col = color (displaySettings volume)
      in if layerType = image then
           Some (ImageLayer ''rendering'' (volume_name volume) source (3 / 4) ''additive''
                   (makeShader fmt (displaySettings volume) (sampleType volume)))
         else if layerType = segmentation then
           (case subsources volume of
              first # _ \<Rightarrow>
                Some (SegmentationLayer ''source'' True (volume_name volume) (Many (source # subs))
                        (Some (ids first)) True col)
            | [] \<Rightarrow>
                Some (SegmentationLayer ''source'' True (volume_name volume) (Single source)
                        None True col))
         else None)"

section \<open>Viewer state\<close>

datatype error = TypeError | FetchError

record SelectedLayer =
  selected_layer :: string
  selected_visible :: bool

text \<open>The arguments given to the \<open>ViewerState\<close> constructor that are not \<open>undefined\<close>.\<close>

record ViewerState =
  state_dimensions :: CoordinateSpace
  state_position :: "real list option"
  state_layers :: "Layer list"
  state_layout :: string
  state_crossSectionScale :: real
  state_crossSectionOrientation :: "real list option"
  state_projectionScale :: real
  state_projectionOrientation :: "real list option"
  state_flags :: "bool list"
  state_colors :: "string list"
  state_selectedLayer :: SelectedLayer

text \<open>
  \<open>vState\<close> is the viewer state that \<open>makeNeuroglancerViewerState\<close> builds before it is
  encoded. A single image layer gets opacity 1; the name of \<open>layers[0]\<close> is read, which
  raises a TypeError on an empty array.
\<close>

definition vState ::
  "Layer list \<Rightarrow> real list option \<Rightarrow> real option \<Rightarrow> real list option \<Rightarrow> error + ViewerState" where
  "vState layers viewerPosition crossSectionScale crossSectionOrientation =
     (let layers1 = (case layers of
                       [ImageLayer tab nam src op bl sh] \<Rightarrow> [ImageLayer tab nam src 1 bl sh]
                     | _ \<Rightarrow> layers);
          projectionOrientation = crossSectionOrientation;
          crossSectionScale1 = (case crossSectionScale of
                                  None \<Rightarrow> 50
                                | Some s \<Rightarrow> if s = 0 then 50 else s);
          projectionScale = 65536
      in case layers1 of
           [] \<Rightarrow> Inl TypeError
         | first # _ \<Rightarrow>
             Inr \<lparr> state_dimensions = outputDims,
                   state_position = viewerPosition,
                   state_layers = layers1,
                   state_layout = ''4panel'',
                   state_crossSectionScale = crossSectionScale1,
                   state_crossSectionOrientation = crossSectionOrientation,
                   state_projectionScale = projectionScale,
                   state_projectionOrientation = projectionOrientation,
                   state_flags = [True, True, True],
                   state_colors = [''black'', ''black''],
                   state_selectedLayer =
                     \<lparr> selected_layer = layer_name first, selected_visible = True \<rparr> \<rparr>)"

text \<open>The encoding of the state into a URL fragment is done by the library functions
  \<open>urlSafeStringify\<close> and \<open>encodeFragment\<close>, the parameter \<open>encode\<close>.\<close>

definition makeNeuroglancerViewerState ::
  "(ViewerState \<Rightarrow> string) \<Rightarrow> Layer list \<Rightarrow> real list option \<Rightarrow> real option \<Rightarrow> real list option
     \<Rightarrow> error + string" where
  "makeNeuroglancerViewerState encode layers viewerPosition crossSectionScale crossSectionOrientation =
     (case vState layers viewerPosition crossSectionScale crossSectionOrientation of
        Inl e \<Rightarrow> Inl e
      | Inr s \<Rightarrow> Inr (encode s))"

section \<open>Maps in insertion order\<close>

text \<open>
  A JavaScript \<open>Map\<close> is the list of its entries in insertion order, with distinct keys.
  \<open>Map.set\<close> replaces the value of a key that is present, where it stands, and appends an
  entry otherwise; \<open>new Map(entries)\<close> sets the entries one after the other.
\<close>

fun Map_set :: "('k \<times> 'v) list \<Rightarrow> 'k \<Rightarrow> 'v \<Rightarrow> ('k \<times> 'v) list" where
  "Map_set [] k v = [(k, v)]"
| "Map_set (p # ps) k v = (if fst p = k then (k, v) # ps else p # Map_set ps k v)"

definition Map_new :: "('k \<times> 'v) list \<Rightarrow> ('k \<times> 'v) list" where
  "Map_new entries = foldl (\<lambda>m p. Map_set m (fst p) (snd p)) [] entries"

definition Map_delete :: "('k \<times> 'v) list \<Rightarrow> 'k \<Rightarrow> ('k \<times> 'v) list \<times> bool" where
  "Map_delete m k = (filter (\<lambda>p. fst p \<noteq> k) m, k \<in> set (map fst m))"

section \<open>Tag sets\<close>

datatype TagCategories =
    Software_Availability
  | Contributing_institution
  | Volumes
  | Sample_Organism
  | Sample_Type
  | Sample_Subtype
  | Sample_Treatment
  | Acquisition_institution
  | Lateral_voxel_size
  | Axial_voxel_size

text \<open>The text of the tag categories.\<close>

fun category_name :: "TagCategories \<Rightarrow> string" where
  "category_name Software_Availability = ''Software Availability''"
| "category_name Contributing_institution = ''Contributing institution''"
| "category_name Volumes = ''Volumes''"
| "category_name Sample_Organism = ''Sample: Organism''"
| "category_name Sample_Type = ''Sample: Type''"
| "category_name Sample_Subtype = ''Sample: Subtype''"
| "category_name Sample_Treatment = ''Sample: Treatment''"
| "category_name Acquisition_institution = ''Acquisition institution''"
| "category_name Lateral_voxel_size = ''Lateral voxel size''"
| "category_name Axial_voxel_size = ''Axial voxel size''"

record ITag =
  tag_value :: string
  category :: TagCategories

text \<open>
  \<open>OSet\<close> keeps its elements in a \<open>Map\<close> under the key \<open>JSON.stringify(element)\<close>. The
  library function \<open>JSON.stringify\<close> is the parameter \<open>stringify\<close>.
\<close>

type_synonym 'a OSet = "(string \<times> 'a) list"

definition OSet_new :: "'a OSet" where
  "OSet_new = []"

definition OSet_add :: "('a \<Rightarrow> string) \<Rightarrow> 'a OSet \<Rightarrow> 'a \<Rightarrow> 'a OSet" where
  "OSet_add stringify s e = Map_set s (stringify e) e"

definition OSet_has :: "('a \<Rightarrow> string) \<Rightarrow> 'a OSet \<Rightarrow> 'a \<Rightarrow> bool" where
  "OSet_has stringify s e = (stringify e \<in> set (map fst s))"

definition OSet_delete :: "('a \<Rightarrow> string) \<Rightarrow> 'a OSet \<Rightarrow> 'a \<Rightarrow> 'a OSet \<times> bool" where
  "OSet_delete stringify s e = Map_delete s (stringify e)"

text \<open>The elements of the set, in iteration order.\<close>

definition elements :: "'a OSet \<Rightarrow> 'a list" where
  "elements s = map snd s"

section \<open>Dataset views\<close>

record DatasetView =
  view_name :: string
  view_description :: string
  sources :: "string list"
  position :: "real list option"
  view_scale :: "real option"
  orientation :: "real list option"

definition DefaultView :: DatasetView where
  "DefaultView = \<lparr> view_name = ''Default view'',
                   view_description = ''The default view of the data'',
                   sources = [],
                   position = None,
                   view_scale = None,
                   orientation = Some [0, 1, 0, 0] \<rparr>"

text \<open>The constructor of \<open>DatasetView\<close>; its argument defaults to \<open>DefaultView\<close>.\<close>

definition DatasetView_new :: "DatasetView option \<Rightarrow> DatasetView" where
  "DatasetView_new arg =
     (let blob = (case arg of None \<Rightarrow> DefaultView | Some b \<Rightarrow> b)
      in \<lparr> view_name = view_name blob,
           view_description = view_description blob,
           sources = sources blob,
           position = position blob,
           view_scale = view_scale blob,
           orientation = orientation blob \<rparr>)"

section \<open>Dataset metadata and tags\<close>

text \<open>The fields of the dataset description that \<open>makeTags\<close> reads. A grid spacing
  component may be absent.\<close>

record GridValues =
  values_x :: "real option"
  values_y :: "real option"
  values_z :: "real option"

record GridSpacing =
  gridSpacing_values :: GridValues

record Imaging =
  imaging_institution :: string
  gridSpacing :: GridSpacing

record Sample =
  organism :: "string list"
  sample_type :: "string list"
  subtype :: "string list"
  treatment :: "string list"

record DatasetMetadata =
  imaging :: Imaging
  institution :: "string list"
  sample :: Sample
  softwareAvailability :: string

definition resolutionTagThreshold :: real where
  "resolutionTagThreshold = 6"

definition makeTags :: "(ITag \<Rightarrow> string) \<Rightarrow> (real \<Rightarrow> string) \<Rightarrow> DatasetMetadata \<Rightarrow> ITag OSet" where
  "makeTags stringify fmt descr =
     (let tags0 = OSet_add stringify OSet_new
                    \<lparr> tag_value = imaging_institution (imaging descr),
                      category = Acquisition_institution \<rparr>;
          tags1 = foldl (\<lambda>tags val. OSet_add stringify tags
                           \<lparr> tag_value = val, category = Contributing_institution \<rparr>)
                    tags0 (institution descr);
          tags2 = foldl (\<lambda>tags val. OSet_add stringify tags
                           \<lparr> tag_value = val, category = Sample_Organism \<rparr>)
                    tags1 (organism (sample descr));
          tags3 = foldl (\<lambda>tags val. OSet_add stringify tags
                           \<lparr> tag_value = val, category = Sample_Type \<rparr>)
                    tags2 (sample_type (sample descr));
          tags4 = foldl (\<lambda>tags val. OSet_add stringify tags
                           \<lparr> tag_value = val, category = Sample_Subtype \<rparr>)
                    tags3 (subtype (sample descr));
          tags5 = foldl (\<lambda>tags val. OSet_add stringify tags
                           \<lparr> tag_value = val, category = Sample_Treatment \<rparr>)
                    tags4 (treatment (sample descr));
          axvox = values_z (gridSpacing_values (gridSpacing (imaging descr)));
          tags6 = (case axvox of
                     None \<Rightarrow> tags5
                   | Some z \<Rightarrow>
                       OSet_add stringify tags5
                         \<lparr> tag_value =
                             (if z \<le> resolutionTagThreshold
                              then ''<= '' @ Number_toString fmt (Num resolutionTagThreshold) @ '' nm''
                              else ''> '' @ Number_toString fmt (Num resolutionTagThreshold) @ '' nm''),
                           category = Axial_voxel_size \<rparr>);
          y = values_y (gridSpacing_values (gridSpacing (imaging descr)));
          x = values_x (gridSpacing_values (gridSpacing (imaging descr)));
          tags7 = (if y \<noteq> None \<or> x \<noteq> None
                   then let latvox = Math_min y x
                        in OSet_add stringify tags6
                             \<lparr> tag_value = Number_toString fmt latvox,
                               category = Lateral_voxel_size \<rparr>
                   else tags6)
      in OSet_add stringify tags7
           \<lparr> tag_value = softwareAvailability descr, category = Software_Availability \<rparr>)"

section \<open>Datasets\<close>

record Dataset =
  dataset_name :: string
  space :: CoordinateSpace
  volumes :: "(string \<times> Volume) list"
  description :: DatasetMetadata
  thumbnailURL :: string
  views :: "DatasetView list"
  tags :: "ITag OSet"

text \<open>The constructor of \<open>Dataset\<close>.\<close>

definition Dataset_new ::
  "(ITag \<Rightarrow> string) \<Rightarrow> (real \<Rightarrow> string) \<Rightarrow> string \<Rightarrow> CoordinateSpace \<Rightarrow> (string \<times> Volume) list
     \<Rightarrow> DatasetMetadata \<Rightarrow> string \<Rightarrow> DatasetView list \<Rightarrow> Dataset" where
  "Dataset_new stringify fmt nam spc vols descr thumb vws =
     \<lparr> dataset_name = nam,
       space = spc,
       volumes = vols,
       description = descr,
       thumbnailURL = thumb,
       views = (if length vws = 0 then [DatasetView_new None]
                else map (\<lambda>v. DatasetView_new (Some v)) vws),
       tags = makeTags stringify fmt descr \<rparr>"

section \<open>Loading the catalog\<close>

record Manifest =
  manifest_sources :: "(string \<times> Volume) list"
  manifest_metadata :: DatasetMetadata
  manifest_views :: "DatasetView list"

text \<open>
  \<open>Promise.all\<close> is fulfilled with all the values when every promise is fulfilled, and is
  rejected as soon as one is rejected (\<open>None\<close>; the reason is the one of the promise that
  is rejected first in time, which is not kept).
\<close>

fun Promise_all :: "(error + 'a) list \<Rightarrow> 'a list option" where
  "Promise_all [] = Some []"
| "Promise_all (Inl e # ps) = None"
| "Promise_all (Inr v # ps) = (case Promise_all ps of None \<Rightarrow> None | Some vs \<Rightarrow> Some (v # vs))"

text \<open>The messages written to the console, by what they report.\<close>

datatype LogEntry = IndexNotLoaded error | Caught error | No_index_json string

text \<open>
  The earlier \<open>makeDatasets\<close>, which lists a bucket. \<open>getDatasetKeys\<close>,
  \<open>getDescription\<close> and \<open>getDatasetIndex\<close> are the outcomes of the three awaited
  fetches (the index may be \<open>undefined\<close>); \<open>build\<close> is the outcome of the body of the
  \<open>try\<close> block, which makes the volumes and the dataset. Only that body is guarded: what
  it throws is logged and the dataset is left out, while a rejected fetch rejects the whole
  promise (\<open>None\<close>).
\<close>

fun makeDatasets_loop ::
  "(string \<Rightarrow> error + 'd) \<Rightarrow> (string \<Rightarrow> error + 'i option) \<Rightarrow> (string \<Rightarrow> 'd \<Rightarrow> 'i \<Rightarrow> error + 'ds)
     \<Rightarrow> string list \<Rightarrow> LogEntry list \<Rightarrow> (string \<times> 'ds) list
     \<Rightarrow> LogEntry list \<times> (string \<times> 'ds) list option" where
  "makeDatasets_loop getDescription getDatasetIndex build [] logged datasets = (logged, Some datasets)"
| "makeDatasets_loop getDescription getDatasetIndex build (key # keys) logged datasets =
     (case getDescription key of
        Inl err \<Rightarrow> (logged, None)
      | Inr descr \<Rightarrow>
          (case getDatasetIndex key of
             Inl err \<Rightarrow> (logged, None)
           | Inr None \<Rightarrow>
               makeDatasets_loop getDescription getDatasetIndex build keys
                 (logged @ [No_index_json key]) datasets
           | Inr (Some index) \<Rightarrow>
               (case build key descr index of
                  Inl err \<Rightarrow>
                    makeDatasets_loop getDescription getDatasetIndex build keys
                      (logged @ [Caught err]) datasets
                | Inr dataset \<Rightarrow>
                    makeDatasets_loop getDescription getDatasetIndex build keys
                      logged (Map_set datasets key dataset))))"

definition makeDatasets_bucket ::
  "error + string list \<Rightarrow> (string \<Rightarrow> error + 'd) \<Rightarrow> (string \<Rightarrow> error + 'i option)
     \<Rightarrow> (string \<Rightarrow> 'd \<Rightarrow> 'i \<Rightarrow> error + 'ds) \<Rightarrow> LogEntry list \<times> (string \<times> 'ds) list option" where
  "makeDatasets_bucket getDatasetKeys getDescription getDatasetIndex build =
     (case getDatasetKeys of
        Inl err \<Rightarrow> ([], None)
      | Inr datasetKeys \<Rightarrow> makeDatasets_loop getDescription getDatasetIndex build datasetKeys [] [])"

text \<open>
  The current \<open>makeDatasets\<close>. \<open>API_index\<close> is the outcome of \<open>await API.index\<close>,
  reduced to the keys of \<open>index.datasets\<close>; \<open>API_get\<close> is the outcome of
  \<open>await API.get(dataset_key)\<close>, a thumbnail and a manifest. The result is the console log
  and the outcome of the promise: \<open>None\<close> when it is rejected.
\<close>

definition makeDatasets ::
  "(ITag \<Rightarrow> string) \<Rightarrow> (real \<Rightarrow> string) \<Rightarrow> error + string list \<Rightarrow> (string \<Rightarrow> error + string \<times> Manifest)
     \<Rightarrow> LogEntry list \<times> (string \<times> Dataset) list option" where
  "makeDatasets stringify fmt API_index API_get =
     (case API_index of
        Inl err \<Rightarrow> ([IndexNotLoaded err], Some [])
      | Inr keys \<Rightarrow>
          (case Promise_all
                  (map (\<lambda>dataset_key.
                          case API_get dataset_key of
                            Inl err \<Rightarrow> Inl err
                          | Inr (thumbnail, manifest) \<Rightarrow>
                              Inr (dataset_key,
                                   Dataset_new stringify fmt dataset_key outputDims
                                     (Map_new (manifest_sources manifest))
                                     (manifest_metadata manifest)
                                     thumbnail
                                     (manifest_views manifest)))
                     keys) of
             None \<Rightarrow> ([], None)
           | Some entries \<Rightarrow> ([], Some (Map_new entries))))"

section \<open>The link to the viewer\<close>

text \<open>
  The component \<open>NeuroglancerLink\<close> renders either the text \<open>No layers selected\<close> or a
  button with the address of the viewer (and a warning icon without WebGL2). The function
  that turns the view and the volume keys into the fragment is the parameter \<open>makeState\<close>.
\<close>

datatype Rendered = No_layers_selected | View_button string bool

definition NeuroglancerLink ::
  "string \<Rightarrow> bool \<Rightarrow> (DatasetView \<times> string list \<Rightarrow> string) \<Rightarrow> (string \<times> 'v) list \<Rightarrow> DatasetView
     \<Rightarrow> (string \<rightharpoonup> bool) \<Rightarrow> Rendered" where
  "NeuroglancerLink neuroglancerAddress webGL2Enabled makeState vols view checkState =
     (let volumeKeys = filter (\<lambda>key. checkState key = Some True) (map fst vols)
      in if length volumeKeys = 0 then No_layers_selected
         else View_button (neuroglancerAddress @ makeState (view, volumeKeys)) (\<not> webGL2Enabled))"

section \<open>The layer checkboxes\<close>

record CheckStates =
  layerCheckState :: "(string \<times> bool) list"
  viewCheckState :: "bool list"

text \<open>The initial state: the layers of the first view are checked, the first view is
  selected.\<close>

definition layerCheckStateInit :: "string list \<Rightarrow> string list \<Rightarrow> (string \<times> bool) list" where
  "layerCheckStateInit volumeKeys vkeys =
     Map_new (map (\<lambda>k. if k \<in> set vkeys then (k, True) else (k, False)) volumeKeys)"

definition viewCheckStateInit :: "'a list \<Rightarrow> bool list" where
  "viewCheckStateInit vws = map (\<lambda>idx. idx = 0) [0 ..< length vws]"

text \<open>
  \<open>handleLayerChange\<close> first sets the entry in the \<open>Map\<close> that the current state holds,
  then copies it, and calls \<open>setCheckStates\<close> with the copy unless every value is false.
  The result is the content of the state's own \<open>Map\<close> after the call, and the argument of
  \<open>setCheckStates\<close> when it is called.
\<close>

definition handleLayerChange ::
  "CheckStates \<Rightarrow> string \<Rightarrow> bool \<Rightarrow> (string \<times> bool) list \<times> CheckStates option" where
  "handleLayerChange checkStates target_name target_checked =
     (let held = Map_set (layerCheckState checkStates) target_name target_checked;
          newCheckState = Map_new held
      in if \<not> list_all (\<lambda>v. \<not> v) (map snd newCheckState)
         then (held, Some (checkStates \<lparr> layerCheckState := newCheckState \<rparr>))
         else (held, None))"

section \<open>Example inputs\<close>

definition zero_scale_transform :: SpatialTransform where
  "zero_scale_transform =
     \<lparr> axes = [''x'', ''y'', ''z''], units = [''nm'', ''nm'', ''nm''],
       translate = [0, 0, 0], scale = [0, 5, 5] \<rparr>"

definition flipped_transform :: SpatialTransform where
  "flipped_transform =
     \<lparr> axes = [''z'', ''y'', ''x''], units = [''nm'', ''nm'', ''nm''],
       translate = [10, 20, 30], scale = [4, 4, - 5] \<rparr>"

definition no_x_transform :: SpatialTransform where
  "no_x_transform =
     \<lparr> axes = [''y'', ''z''], units = [''nm'', ''nm''], translate = [0, 0], scale = [5, 5] \<rparr>"

text \<open>A stand-in for the text of the numbers that are not integers.\<close>

definition plain_fmt :: "real \<Rightarrow> string" where
  "plain_fmt r = ''0.5''"

definition identity_transform :: SpatialTransform where
  "identity_transform =
     \<lparr> axes = [''x'', ''y'', ''z''], units = [''nm'', ''nm'', ''nm''],
       translate = [0, 0, 0], scale = [4, 4, 4] \<rparr>"

definition gray_settings :: DisplaySettings where
  "gray_settings =
     \<lparr> contrastLimits = \<lparr> limits_min = 0, limits_max = 255, limits_start = 10, limits_end = 200 \<rparr>,
       invertLUT = False, color = Some ''white'' \<rparr>"

definition seg_volume :: Volume where
  "seg_volume =
     \<lparr> url = ''bucket/seg'', volume_name = ''mito_seg'', transform = identity_transform,
       contentType = ''segmentation'', sampleType = ''label'', format = n5,
       displaySettings = gray_settings, volume_description = ''Mitochondria'',
       subsources = [] \<rparr>"

definition em_volume :: Volume where
  "em_volume =
     \<lparr> url = ''bucket/em'', volume_name = ''fibsem'', transform = identity_transform,
       contentType = ''em'', sampleType = ''scalar'', format = n5,
       displaySettings = gray_settings, volume_description = ''FIB-SEM'',
       subsources = [] \<rparr>"

definition seg_layer :: Layer where
  "seg_layer =
     SegmentationLayer ''source'' True ''mito_seg''
       (Single \<lparr> source_url = ''n5://bucket/seg'',
                  source_transform = SpatialTransformToNeuroglancer identity_transform outputDims,
                  source_CoordinateSpaceTransform =
                    SpatialTransformToNeuroglancer identity_transform outputDims \<rparr>)
       None True (Some ''white'')"

text \<open>The JSON text of a tag whose value has no character that JSON escapes.\<close>

definition plain_stringify :: "ITag \<Rightarrow> string" where
  \<open>plain_stringify t =
     ''{"value":"'' @ tag_value t @ ''","category":"'' @ category_name (category t) @ ''"}''\<close>

definition only_x_metadata :: DatasetMetadata where
  "only_x_metadata =
     \<lparr> imaging = \<lparr> imaging_institution = ''Janelia'',
                   gridSpacing = \<lparr> gridSpacing_values =
                     \<lparr> values_x = Some 8, values_y = None, values_z = None \<rparr> \<rparr> \<rparr>,
       institution = [''Janelia''],
       sample = \<lparr> organism = [''mouse''], sample_type = [], subtype = [], treatment = [] \<rparr>,
       softwareAvailability = ''open'' \<rparr>"

definition x_y_metadata :: DatasetMetadata where
  "x_y_metadata =
     \<lparr> imaging = \<lparr> imaging_institution = ''Janelia'',
                   gridSpacing = \<lparr> gridSpacing_values =
                     \<lparr> values_x = Some 8, values_y = Some 4, values_z = None \<rparr> \<rparr> \<rparr>,
       institution = [''Janelia''],
       sample = \<lparr> organism = [''mouse''], sample_type = [], subtype = [], treatment = [] \<rparr>,
       softwareAvailability = ''open'' \<rparr>"

definition small_manifest :: Manifest where
  "small_manifest =
     \<lparr> manifest_sources = [(''em'', em_volume)],
       manifest_metadata = x_y_metadata,
       manifest_views = [] \<rparr>"

text \<open>A catalog in which the manifest of \<open>b\<close> cannot be fetched.\<close>

definition one_failing_get :: "string \<Rightarrow> error + string \<times> Manifest" where
  "one_failing_get dataset_key =
     (if dataset_key = ''b'' then Inl FetchError else Inr (''thumbnail.jpg'', small_manifest))"

definition one_checked :: CheckStates where
  "one_checked = \<lparr> layerCheckState = [(''em'', True), (''seg'', False)], viewCheckState = [True] \<rparr>"

section \<open>Properties of the coordinate transform\<close>

lemma indexOf_from_first:
  "i < length bs \<Longrightarrow> bs ! i = a \<Longrightarrow> \<forall>j<i. bs ! j \<noteq> a \<Longrightarrow> indexOf_from bs a n = int (n + i)"
proof (induction bs arbitrary: i n)
  case Nil
  then show ?case by simp
next
  case (Cons b bs)
  show ?case
  proof (cases i)
    case 0
    with Cons.prems show ?thesis by simp
  next
    case (Suc k)
    from Cons.prems Suc have "b \<noteq> a" by auto
    moreover have "indexOf_from bs a (Suc n) = int (Suc n + k)"
    proof (rule Cons.IH)
      show "k < length bs" using Cons.prems Suc by simp
      show "bs ! k = a" using Cons.prems Suc by simp
      show "\<forall>j<k. bs ! j \<noteq> a"
      proof (intro allI impI)
        fix j assume "j < k"
        then have "Suc j < i" using Suc by simp
        with Cons.prems have "(b # bs) ! Suc j \<noteq> a" by blast
        then show "bs ! j \<noteq> a" by simp
      qed
    qed
    ultimately show ?thesis using Suc by simp
  qed
qed

lemma indexOf_first:
  "i < length bs \<Longrightarrow> bs ! i = a \<Longrightarrow> \<forall>j<i. bs ! j \<noteq> a \<Longrightarrow> indexOf bs a = int i"
  using indexOf_from_first [of i bs a 0] by (simp add: indexOf_def)

lemma indexOf_from_absent: "a \<notin> set bs \<Longrightarrow> indexOf_from bs a n = - 1"
  by (induction bs arbitrary: n) auto

lemma indexOf_absent: "a \<notin> set bs \<Longrightarrow> indexOf bs a = - 1"
  by (simp add: indexOf_def indexOf_from_absent)

lemma element_in_range: "i < length bs \<Longrightarrow> element bs (int i) = Some (bs ! i)"
  by (simp add: element_def)

lemma element_minus_one: "element bs (- 1) = None"
  by (simp add: element_def)

text \<open>
  C1 (as amended). For a transform whose parallel arrays have the length of the axis list and
  whose axis list holds the labels x, y and z (first at the positions \<open>ix\<close>, \<open>iy\<close>,
  \<open>iz\<close>): the unit size of each input axis is \<open>1e-9\<close> times the absolute value of the
  scale of that axis; the matrix has \<open>-1\<close> on the diagonal where the scale is negative and
  \<open>+1\<close> otherwise, zeros elsewhere, and the raw translate values in the last column; the
  diagonal entry is the sign of the scale whenever the scale is not zero.
\<close>

theorem transform_of_axes:
  assumes len: "length (scale t) = length (axes t)" "length (translate t) = length (axes t)"
    and x: "ix < length (axes t)" "axes t ! ix = ''x''" "\<forall>j<ix. axes t ! j \<noteq> ''x''"
    and y: "iy < length (axes t)" "axes t ! iy = ''y''" "\<forall>j<iy. axes t ! j \<noteq> ''y''"
    and z: "iz < length (axes t)" "axes t ! iz = ''z''" "\<forall>j<iz. axes t ! j \<noteq> ''z''"
  shows "inputDimensions (SpatialTransformToNeuroglancer t out) =
           \<lparr> space_x = (Num (1 / 10 ^ 9 * \<bar>scale t ! ix\<bar>), ''m''),
             space_y = (Num (1 / 10 ^ 9 * \<bar>scale t ! iy\<bar>), ''m''),
             space_z = (Num (1 / 10 ^ 9 * \<bar>scale t ! iz\<bar>), ''m'') \<rparr>
       \<and> matrix (SpatialTransformToNeuroglancer t out) =
           [[Some (if scale t ! ix < 0 then - 1 else 1), Some 0, Some 0, Some (translate t ! ix)],
            [Some 0, Some (if scale t ! iy < 0 then - 1 else 1), Some 0, Some (translate t ! iy)],
            [Some 0, Some 0, Some (if scale t ! iz < 0 then - 1 else 1), Some (translate t ! iz)]]
       \<and> (scale t ! ix \<noteq> 0 \<longrightarrow>
            matrix (SpatialTransformToNeuroglancer t out) ! 0 ! 0 = Some (sgn (scale t ! ix)))
       \<and> (scale t ! iy \<noteq> 0 \<longrightarrow>
            matrix (SpatialTransformToNeuroglancer t out) ! 1 ! 1 = Some (sgn (scale t ! iy)))
       \<and> (scale t ! iz \<noteq> 0 \<longrightarrow>
            matrix (SpatialTransformToNeuroglancer t out) ! 2 ! 2 = Some (sgn (scale t ! iz)))"
proof -
  have ix: "indexOf (axes t) ''x'' = int ix" using x by (rule indexOf_first)
  have iy: "indexOf (axes t) ''y'' = int iy" using y by (rule indexOf_first)
  have iz: "indexOf (axes t) ''z'' = int iz" using z by (rule indexOf_first)
  have sc: "element (scale t) (int ix) = Some (scale t ! ix)"
      "element (scale t) (int iy) = Some (scale t ! iy)"
      "element (scale t) (int iz) = Some (scale t ! iz)"
    using len x(1) y(1) z(1) by (simp_all add: element_in_range)
  have tr: "element (translate t) (int ix) = Some (translate t ! ix)"
      "element (translate t) (int iy) = Some (translate t ! iy)"
      "element (translate t) (int iz) = Some (translate t ! iz)"
    using len x(1) y(1) z(1) by (simp_all add: element_in_range)
  show ?thesis
    by (simp add: SpatialTransformToNeuroglancer_def ix iy iz sc tr sgn_if)
qed

theorem transform_of_axes_witness:
  "scale flipped_transform ! 2 \<noteq> 0
   \<and> matrix (SpatialTransformToNeuroglancer flipped_transform outputDims) ! 0 ! 0
       = Some (sgn (scale flipped_transform ! 2))
   \<and> inputDimensions (SpatialTransformToNeuroglancer flipped_transform outputDims) =
     \<lparr> space_x = (Num (5 / 10 ^ 9), ''m''),
       space_y = (Num (4 / 10 ^ 9), ''m''),
       space_z = (Num (4 / 10 ^ 9), ''m'') \<rparr>
   \<and> matrix (SpatialTransformToNeuroglancer flipped_transform outputDims) =
     [[Some (- 1), Some 0, Some 0, Some 30],
      [Some 0, Some 1, Some 0, Some 20],
      [Some 0, Some 0, Some 1, Some 10]]"
proof -
  have j2: "\<forall>j<2. axes flipped_transform ! j \<noteq> ''x''"
    by (simp add: flipped_transform_def less_Suc_eq numeral_2_eq_2)
  have j1: "\<forall>j<1. axes flipped_transform ! j \<noteq> ''y''"
    by (simp add: flipped_transform_def)
  have j0: "\<forall>j<0. axes flipped_transform ! j \<noteq> ''z''" by simp
  have "length (scale flipped_transform) = length (axes flipped_transform)"
       "length (translate flipped_transform) = length (axes flipped_transform)"
       "2 < length (axes flipped_transform)" "axes flipped_transform ! 2 = ''x''"
       "1 < length (axes flipped_transform)" "axes flipped_transform ! 1 = ''y''"
       "0 < length (axes flipped_transform)" "axes flipped_transform ! 0 = ''z''"
    by (simp_all add: flipped_transform_def)
  from transform_of_axes [OF this(1,2,3,4) j2 this(5,6) j1 this(7,8) j0, of outputDims]
  show ?thesis by (simp add: flipped_transform_def)
qed

text \<open>
  C1 as stated fails for a scale of zero: the diagonal entry is \<open>+1\<close>, the sign of the scale
  is \<open>0\<close>.
\<close>

theorem sign_of_zero_scale_counterexample:
  "matrix (SpatialTransformToNeuroglancer zero_scale_transform outputDims) ! 0 ! 0 = Some 1
   \<and> sgn (scale zero_scale_transform ! 0) = 0"
  by (simp add: SpatialTransformToNeuroglancer_def zero_scale_transform_def indexOf_def element_def)

text \<open>
  C9 (as amended). When the axis list lacks one of the labels x, y, z, the transform is built
  all the same, without an error: the unit size of that input axis is NaN, its row of the
  matrix has \<open>+1\<close> on the diagonal and \<open>undefined\<close> as translation.
\<close>

theorem transform_of_missing_axis:
  "(''x'' \<notin> set (axes t) \<longrightarrow>
      space_x (inputDimensions (SpatialTransformToNeuroglancer t out)) = (NaN, ''m'')
      \<and> matrix (SpatialTransformToNeuroglancer t out) ! 0 = [Some 1, Some 0, Some 0, None])
 \<and> (''y'' \<notin> set (axes t) \<longrightarrow>
      space_y (inputDimensions (SpatialTransformToNeuroglancer t out)) = (NaN, ''m'')
      \<and> matrix (SpatialTransformToNeuroglancer t out) ! 1 = [Some 0, Some 1, Some 0, None])
 \<and> (''z'' \<notin> set (axes t) \<longrightarrow>
      space_z (inputDimensions (SpatialTransformToNeuroglancer t out)) = (NaN, ''m'')
      \<and> matrix (SpatialTransformToNeuroglancer t out) ! 2 = [Some 0, Some 0, Some 1, None])"
  by (simp add: SpatialTransformToNeuroglancer_def indexOf_absent element_minus_one)

theorem transform_of_missing_axis_witness:
  "''x'' \<notin> set (axes no_x_transform)
   \<and> space_x (inputDimensions (SpatialTransformToNeuroglancer no_x_transform outputDims)) = (NaN, ''m'')
   \<and> matrix (SpatialTransformToNeuroglancer no_x_transform outputDims) ! 0
       = [Some 1, Some 0, Some 0, None]"
proof -
  have h: "''x'' \<notin> set (axes no_x_transform)" by (simp add: no_x_transform_def)
  with transform_of_missing_axis [of no_x_transform outputDims] show ?thesis by blast
qed

text \<open>
  C9 as stated fails: for the axes y and z only, no error is raised and a transform is
  returned.
\<close>

theorem missing_axis_counterexample:
  "SpatialTransformToNeuroglancer no_x_transform outputDims =
     \<lparr> matrix = [[Some 1, Some 0, Some 0, None],
                 [Some 0, Some 1, Some 0, Some 0],
                 [Some 0, Some 0, Some 1, Some 0]],
       outputDimensions = outputDims,
       inputDimensions = \<lparr> space_x = (NaN, ''m''),
                           space_y = (Num (5 / 10 ^ 9), ''m''),
                           space_z = (Num (5 / 10 ^ 9), ''m'') \<rparr> \<rparr>"
  by (simp add: SpatialTransformToNeuroglancer_def no_x_transform_def indexOf_def element_def)

section \<open>Properties of the compiled layers\<close>

lemma makeLayer_image:
  "makeLayer fmt v image =
     Some (ImageLayer ''rendering'' (volume_name v)
             \<lparr> source_url = store_name (format v) @ ''://'' @ url v,
               source_transform = SpatialTransformToNeuroglancer (transform v) outputDims,
               source_CoordinateSpaceTransform =
                 SpatialTransformToNeuroglancer (transform v) outputDims \<rparr>
             (3 / 4) ''additive'' (makeShader fmt (displaySettings v) (sampleType v)))"
  by (simp add: makeLayer_def Let_def)

lemma makeLayer_segmentation:
  "\<exists>srcs segs. makeLayer fmt v segmentation =
     Some (SegmentationLayer ''source'' True (volume_name v) srcs segs True
             (color (displaySettings v)))"
  by (cases "subsources v") (simp_all add: makeLayer_def Let_def)

lemma vState_single_image:
  "vState [ImageLayer tab nam src op bl sh] pos sc ori = Inr st \<Longrightarrow>
     state_layers st = [ImageLayer tab nam src 1 bl sh]"
  by (auto simp add: vState_def Let_def)

lemma vState_single_segmentation:
  "\<exists>st. vState [SegmentationLayer tab pick nam srcs segs hide col] pos sc ori = Inr st
     \<and> state_layers st = [SegmentationLayer tab pick nam srcs segs hide col]"
  by (simp add: vState_def Let_def)

lemma vState_many:
  "2 \<le> length ls \<Longrightarrow> \<exists>st. vState ls pos sc ori = Inr st \<and> state_layers st = ls"
proof -
  assume "2 \<le> length ls"
  then obtain a b rest where ls: "ls = a # b # rest"
    by (cases ls; cases "tl ls") auto
  show ?thesis
    unfolding ls by (cases a) (simp_all add: vState_def Let_def)
qed

text \<open>
  C2 (as amended). Compiling exactly one image volume yields an image layer with opacity 1.0
  and additive blending; compiling two or more image volumes yields opacity 0.75 and additive
  blending for each; a single segmentation volume yields its layer unchanged, which has no
  opacity.
\<close>

theorem opacity_of_compiled_layers:
  "(\<exists>l st. makeLayer fmt v image = Some l \<and> vState [l] pos sc ori = Inr st
        \<and> map opacity (state_layers st) = [Some 1]
        \<and> map blend (state_layers st) = [Some ''additive''])
 \<and> (2 \<le> length vs \<longrightarrow>
      (\<exists>ls st. map (\<lambda>v. makeLayer fmt v image) vs = map Some ls \<and> vState ls pos sc ori = Inr st
         \<and> length (state_layers st) = length vs
         \<and> (\<forall>l \<in> set (state_layers st). opacity l = Some (3 / 4) \<and> blend l = Some ''additive'')))
 \<and> (\<exists>l st. makeLayer fmt v segmentation = Some l \<and> vState [l] pos sc ori = Inr st
        \<and> state_layers st = [l] \<and> opacity l = None)"
proof (intro conjI impI)
  show "\<exists>l st. makeLayer fmt v image = Some l \<and> vState [l] pos sc ori = Inr st
        \<and> map opacity (state_layers st) = [Some 1]
        \<and> map blend (state_layers st) = [Some ''additive'']"
    by (simp add: makeLayer_image vState_def Let_def)
next
  assume two: "2 \<le> length vs"
  define ls where "ls = map (\<lambda>v. the (makeLayer fmt v image)) vs"
  have eq: "map (\<lambda>v. makeLayer fmt v image) vs = map Some ls"
    by (simp add: ls_def makeLayer_image)
  have "2 \<le> length ls" using two by (simp add: ls_def)
  then obtain st where st: "vState ls pos sc ori = Inr st" "state_layers st = ls"
    using vState_many by blast
  have "\<forall>l \<in> set ls. opacity l = Some (3 / 4) \<and> blend l = Some ''additive''"
    by (auto simp add: ls_def makeLayer_image)
  with eq st show "\<exists>ls st. map (\<lambda>v. makeLayer fmt v image) vs = map Some ls \<and> vState ls pos sc ori = Inr st
         \<and> length (state_layers st) = length vs
         \<and> (\<forall>l \<in> set (state_layers st). opacity l = Some (3 / 4) \<and> blend l = Some ''additive'')"
    by (intro exI [of _ ls] exI [of _ st]) (simp add: ls_def)
next
  obtain srcs segs where l: "makeLayer fmt v segmentation =
     Some (SegmentationLayer ''source'' True (volume_name v) srcs segs True (color (displaySettings v)))"
    using makeLayer_segmentation by blast
  show "\<exists>l st. makeLayer fmt v segmentation = Some l \<and> vState [l] pos sc ori = Inr st
        \<and> state_layers st = [l] \<and> opacity l = None"
    using l vState_single_segmentation by fastforce
qed

theorem opacity_of_compiled_layers_witness:
  "2 \<le> length [em_volume, em_volume]
   \<and> (\<exists>ls st. map (\<lambda>v. makeLayer plain_fmt v image) [em_volume, em_volume] = map Some ls
         \<and> vState ls None None None = Inr st
         \<and> length (state_layers st) = length [em_volume, em_volume]
         \<and> (\<forall>l \<in> set (state_layers st). opacity l = Some (3 / 4) \<and> blend l = Some ''additive''))"
proof -
  have h: "2 \<le> length [em_volume, em_volume]" by simp
  with opacity_of_compiled_layers [of plain_fmt em_volume None None None "[em_volume, em_volume]"]
  show ?thesis by blast
qed

text \<open>
  C2 as stated fails for a single segmentation volume: the layer of the viewer state is the
  segmentation layer as built, whose opacity is not 1.0.
\<close>

theorem single_segmentation_counterexample:
  "makeLayer plain_fmt seg_volume segmentation = Some seg_layer
   \<and> map_sum id state_layers (vState [seg_layer] None None None) = Inr [seg_layer]
   \<and> opacity seg_layer \<noteq> Some 1"
  by (simp add: makeLayer_def seg_volume_def seg_layer_def gray_settings_def vState_def Let_def)

section \<open>Properties of the link component\<close>

text \<open>
  C3. The link component renders the refusal text exactly when no volume key of the dataset
  is checked; and building the viewer state from an empty layer list raises an error, so no
  state with an empty layer list or without a selected layer is ever produced.
\<close>

theorem no_link_without_selection:
  "(NeuroglancerLink neuroglancerAddress webGL2Enabled makeState vols view checkState
      = No_layers_selected
    \<longleftrightarrow> (\<forall>key \<in> set (map fst vols). checkState key \<noteq> Some True))
   \<and> vState [] pos sc ori = Inl TypeError
   \<and> makeNeuroglancerViewerState encode [] pos sc ori = Inl TypeError"
  by (auto simp add: NeuroglancerLink_def Let_def filter_empty_conv vState_def
        makeNeuroglancerViewerState_def)

theorem no_link_without_selection_witness:
  "[''em'' \<mapsto> False] ''em'' \<noteq> Some True
   \<and> [''em'' \<mapsto> False] ''seg'' \<noteq> Some True
   \<and> NeuroglancerLink ''https://viewer/#!'' True (\<lambda>p. ''state'')
        [(''em'', em_volume), (''seg'', seg_volume)] DefaultView [''em'' \<mapsto> False]
      = No_layers_selected"
proof -
  have h: "\<forall>key \<in> set (map fst [(''em'', em_volume), (''seg'', seg_volume)]).
       [''em'' \<mapsto> False] key \<noteq> Some True" by simp
  with no_link_without_selection [of "''https://viewer/#!''" True "\<lambda>p. ''state''"
      "[(''em'', em_volume), (''seg'', seg_volume)]" DefaultView "[''em'' \<mapsto> False]"]
  show ?thesis by simp
qed

section \<open>Properties of the shader synthesizer\<close>

text \<open>
  C4. \<open>makeShader\<close> returns a value for every display setting and every sample type: for
  \<open>scalar\<close> a program with the normalization control, the invert slider and the color
  control; for \<open>label\<close> the empty program; for any other sample type no shader.
\<close>

theorem makeShader_total:
  \<open>(stype = ''scalar'' \<longrightarrow>
      (\<exists>prog. makeShader fmt d stype = Some prog
         \<and> sublist (''#uicontrol invlerp normalized(range=[''
                      @ Number_toString fmt (Num (limits_start (contrastLimits d)))
                      @ '', '' @ Number_toString fmt (Num (limits_end (contrastLimits d)))
                      @ ''], window=['' @ Number_toString fmt (Num (limits_min (contrastLimits d)))
                      @ '', '' @ Number_toString fmt (Num (limits_max (contrastLimits d))) @ ''])'') prog
         \<and> sublist (''#uicontrol int invertColormap slider(min=0, max=1, step=1, default=''
                      @ (if invertLUT d then ''1'' else ''0'') @ '')'') prog
         \<and> sublist (''#uicontrol vec3 color color(default="'' @ String_of (color d) @ ''")'') prog))
   \<and> (stype = ''label'' \<longrightarrow> makeShader fmt d stype = Some [])
   \<and> (stype \<noteq> ''scalar'' \<and> stype \<noteq> ''label'' \<longrightarrow> makeShader fmt d stype = None)\<close>
proof (intro conjI impI)
  assume st: "stype = ''scalar''"
  define A where "A = ''#uicontrol invlerp normalized(range=[''
                      @ Number_toString fmt (Num (limits_start (contrastLimits d)))
                      @ '', '' @ Number_toString fmt (Num (limits_end (contrastLimits d)))
                      @ ''], window=['' @ Number_toString fmt (Num (limits_min (contrastLimits d)))
                      @ '', '' @ Number_toString fmt (Num (limits_max (contrastLimits d))) @ ''])''"
  define B where "B = ''#uicontrol int invertColormap slider(min=0, max=1, step=1, default=''
                      @ (if invertLUT d then ''1'' else ''0'') @ '')''"
  define C where \<open>C = ''#uicontrol vec3 color color(default="'' @ String_of (color d) @ ''")''\<close>
  define R where "R = ''\<newline>        float inverter(float val, int invert) {return 0.5 + ((2.0 * (-float(invert) + 0.5)) * (val - 0.5));}\<newline>''
              @ ''          void main() {\<newline>''
              @ ''          emitRGB(color * inverter(normalized(), invertColormap));\<newline>''
              @ ''        }''"
  have prog: "makeShader fmt d stype = Some (A @ ''\<newline>        '' @ B @ ''\<newline>        '' @ C @ R)"
    by (simp add: makeShader_def st Let_def A_def B_def C_def R_def)
  have "sublist A (A @ ''\<newline>        '' @ B @ ''\<newline>        '' @ C @ R)"
    by (rule sublist_append_rightI)
  moreover have "sublist B ((A @ ''\<newline>        '') @ B @ (''\<newline>        '' @ C @ R))"
    by (rule sublist_appendI)
  moreover have "sublist C ((A @ ''\<newline>        '' @ B @ ''\<newline>        '') @ C @ R)"
    by (rule sublist_appendI)
  ultimately show "\<exists>prog. makeShader fmt d stype = Some prog
         \<and> sublist A prog \<and> sublist B prog \<and> sublist C prog"
    using prog by simp
next
  assume "stype = ''label''"
  then show "makeShader fmt d stype = Some []" by (simp add: makeShader_def)
next
  assume "stype \<noteq> ''scalar'' \<and> stype \<noteq> ''label''"
  then show "makeShader fmt d stype = None" by (simp add: makeShader_def)
qed

lemma Number_toString_examples:
  "Number_toString fmt (Num 10) = ''10''" "Number_toString fmt (Num 200) = ''200''"
  "Number_toString fmt (Num 0) = ''0''" "Number_toString fmt (Num 255) = ''255''"
  "Number_toString fmt (Num 4) = ''4''" "Number_toString fmt (Num 8) = ''8''"
  "Number_toString fmt (Num 6) = ''6''" "Number_toString fmt NaN = ''NaN''"
  by (simp_all add: Number_toString_def decimal.simps)

theorem makeShader_total_witness:
  "''rgb'' \<noteq> ''scalar'' \<and> ''rgb'' \<noteq> ''label''
   \<and> makeShader plain_fmt gray_settings ''rgb'' = None
   \<and> makeShader plain_fmt gray_settings ''label'' = Some []
   \<and> (\<exists>prog. makeShader plain_fmt gray_settings ''scalar'' = Some prog
         \<and> sublist ''#uicontrol invlerp normalized(range=[10, 200], window=[0, 255])'' prog)"
proof -
  have h: "''rgb'' \<noteq> ''scalar'' \<and> ''rgb'' \<noteq> ''label''" by simp
  have a: "makeShader plain_fmt gray_settings ''rgb'' = None"
    using makeShader_total [of "''rgb''" plain_fmt gray_settings] h by blast
  have b: "makeShader plain_fmt gray_settings ''label'' = Some []"
    using makeShader_total [of "''label''" plain_fmt gray_settings] by blast
  have c: "\<exists>prog. makeShader plain_fmt gray_settings ''scalar'' = Some prog
         \<and> sublist ''#uicontrol invlerp normalized(range=[10, 200], window=[0, 255])'' prog"
    using makeShader_total [of "''scalar''" plain_fmt gray_settings]
    by (simp add: gray_settings_def Number_toString_examples) blast
  from h a b c show ?thesis by blast
qed

section \<open>Properties of the dataset constructor\<close>

text \<open>
  C5. Every constructed dataset has at least one view; constructed from an empty view list
  it has exactly one view, the default view, whose source list is empty and whose position
  and scale are undefined.
\<close>

theorem Dataset_has_a_view:
  "1 \<le> length (views (Dataset_new stringify fmt nam spc vols descr thumb vws))
   \<and> views (Dataset_new stringify fmt nam spc vols descr thumb []) = [DefaultView]
   \<and> view_name DefaultView = ''Default view''
   \<and> sources DefaultView = []
   \<and> position DefaultView = None
   \<and> view_scale DefaultView = None"
  by (cases vws) (simp_all add: Dataset_new_def DatasetView_new_def DefaultView_def)

section \<open>Properties of maps and tag sets\<close>

lemma Map_set_again: "Map_set (Map_set m k v) k v = Map_set m k v"
  by (induction m) auto

lemma Map_set_keys:
  "map fst (Map_set m k v) = (if k \<in> set (map fst m) then map fst m else map fst m @ [k])"
  by (induction m) auto

lemma Map_set_distinct: "distinct (map fst m) \<Longrightarrow> distinct (map fst (Map_set m k v))"
  by (simp add: Map_set_keys)

lemma Map_set_entries:
  "distinct (map fst m) \<Longrightarrow> set (Map_set m k v) = insert (k, v) {p \<in> set m. fst p \<noteq> k}"
  by (induction m) (auto simp add: rev_image_eqI)

lemma Map_set_fresh: "k \<notin> set (map fst m) \<Longrightarrow> Map_set m k v = m @ [(k, v)]"
  by (induction m) auto

text \<open>A set is well keyed when its keys are distinct and every element stands under its
  own key.\<close>

lemma OSet_add_keyed:
  assumes "distinct (map fst s)" "\<forall>p \<in> set s. fst p = stringify (snd p)"
  shows "distinct (map fst (OSet_add stringify s e))
       \<and> (\<forall>p \<in> set (OSet_add stringify s e). fst p = stringify (snd p))"
  using assms by (auto simp add: OSet_add_def Map_set_distinct Map_set_entries)

lemma OSet_add_elements:
  assumes "inj stringify" "distinct (map fst s)" "\<forall>p \<in> set s. fst p = stringify (snd p)"
  shows "set (elements (OSet_add stringify s e)) = insert e (set (elements s))"
proof -
  have "snd ` {p \<in> set s. fst p \<noteq> stringify e} \<union> {e} = snd ` set s \<union> {e}"
  proof (intro equalityI subsetI)
    fix a assume "a \<in> snd ` {p \<in> set s. fst p \<noteq> stringify e} \<union> {e}"
    then show "a \<in> snd ` set s \<union> {e}" by auto
  next
    fix a assume a: "a \<in> snd ` set s \<union> {e}"
    show "a \<in> snd ` {p \<in> set s. fst p \<noteq> stringify e} \<union> {e}"
    proof (cases "a = e")
      case True
      then show ?thesis by simp
    next
      case False
      with a obtain p where p: "p \<in> set s" "snd p = a" by auto
      with assms(3) have "fst p = stringify a" by auto
      with False assms(1) have "fst p \<noteq> stringify e" by (auto dest: injD)
      with p show ?thesis by auto
    qed
  qed
  then show ?thesis
    using assms(2) by (simp add: elements_def OSet_add_def Map_set_entries)
qed

lemma foldl_OSet_add:
  assumes "inj stringify" "distinct (map fst s)" "\<forall>p \<in> set s. fst p = stringify (snd p)"
  shows "distinct (map fst (foldl (\<lambda>tags val. OSet_add stringify tags (f val)) s vals))
       \<and> (\<forall>p \<in> set (foldl (\<lambda>tags val. OSet_add stringify tags (f val)) s vals).
             fst p = stringify (snd p))
       \<and> set (elements (foldl (\<lambda>tags val. OSet_add stringify tags (f val)) s vals))
           = f ` set vals \<union> set (elements s)"
  using assms(2,3)
proof (induction vals arbitrary: s)
  case Nil
  then show ?case by simp
next
  case (Cons val vals)
  have k: "distinct (map fst (OSet_add stringify s (f val)))"
      "\<forall>p \<in> set (OSet_add stringify s (f val)). fst p = stringify (snd p)"
    using OSet_add_keyed [OF Cons.prems] by blast+
  have e: "set (elements (OSet_add stringify s (f val))) = insert (f val) (set (elements s))"
    using OSet_add_elements [OF assms(1) Cons.prems] .
  from Cons.IH [OF k] e show ?case by auto
qed

lemma keyed_elements_distinct:
  assumes "inj stringify" "distinct (map fst s)" "\<forall>p \<in> set s. fst p = stringify (snd p)"
  shows "distinct (elements s)"
proof -
  have "map fst s = map stringify (elements s)"
    using assms(3) by (simp add: elements_def)
  with assms(2) show ?thesis by (simp add: distinct_map)
qed

lemma count_list_distinct: "distinct bs \<Longrightarrow> b \<in> set bs \<Longrightarrow> count_list bs b = 1"
  by (induction bs) auto

lemma category_name_inj: "category_name c = category_name c' \<Longrightarrow> c = c'"
  by (cases c; cases c'; simp)

lemma plain_stringify_inj: "inj plain_stringify"
proof (rule injI)
  fix t u :: ITag
  assume eq: "plain_stringify t = plain_stringify u"
  then have "rev (plain_stringify t) = rev (plain_stringify u)" by simp
  then have r: "rev (category_name (category t)) @ rev ''\",\"category\":\"'' @ rev (tag_value t)
              = rev (category_name (category u)) @ rev ''\",\"category\":\"'' @ rev (tag_value u)"
    by (simp add: plain_stringify_def)
  have "category t = category u \<and> tag_value t = tag_value u"
    using r by (cases "category t"; cases "category u"; simp)
  then show "t = u" by simp
qed

text \<open>
  C7. Adding to a tag set the element it was just given changes nothing; an empty set given
  the same element twice has that one element; and, \<open>JSON.stringify\<close> being injective, a set
  built by any sequence of additions holds each added element exactly once.
\<close>

theorem OSet_add_idempotent:
  "OSet_add stringify (OSet_add stringify s e) e = OSet_add stringify s e
   \<and> elements (OSet_add stringify (OSet_add stringify OSet_new e) e) = [e]
   \<and> (inj stringify \<and> e \<in> set es \<longrightarrow>
        count_list (elements (foldl (OSet_add stringify) OSet_new es)) e = 1)"
proof (intro conjI impI)
  show "OSet_add stringify (OSet_add stringify s e) e = OSet_add stringify s e"
    by (simp add: OSet_add_def Map_set_again)
  show "elements (OSet_add stringify (OSet_add stringify OSet_new e) e) = [e]"
    by (simp add: OSet_add_def OSet_new_def elements_def)
next
  assume h: "inj stringify \<and> e \<in> set es"
  have init: "distinct (map fst (OSet_new :: 'a OSet))"
      "\<forall>p \<in> set (OSet_new :: 'a OSet). fst p = stringify (snd p)"
    by (simp_all add: OSet_new_def)
  have inj: "inj stringify" using h by simp
  note fold = foldl_OSet_add [OF inj init, of "\<lambda>v. v" es]
  have "distinct (elements (foldl (OSet_add stringify) OSet_new es))"
    using keyed_elements_distinct [OF inj] fold by simp
  moreover have "e \<in> set (elements (foldl (OSet_add stringify) OSet_new es))"
    using fold h by simp
  ultimately show "count_list (elements (foldl (OSet_add stringify) OSet_new es)) e = 1"
    by (rule count_list_distinct)
qed

theorem OSet_add_idempotent_witness:
  "inj plain_stringify
   \<and> count_list (elements (foldl (OSet_add plain_stringify) OSet_new
        [\<lparr> tag_value = ''mouse'', category = Sample_Organism \<rparr>,
         \<lparr> tag_value = ''open'', category = Software_Availability \<rparr>,
         \<lparr> tag_value = ''mouse'', category = Sample_Organism \<rparr>]))
       \<lparr> tag_value = ''mouse'', category = Sample_Organism \<rparr> = 1"
proof -
  have m: "\<lparr> tag_value = ''mouse'', category = Sample_Organism \<rparr>
      \<in> set [\<lparr> tag_value = ''mouse'', category = Sample_Organism \<rparr>,
         \<lparr> tag_value = ''open'', category = Software_Availability \<rparr>,
         \<lparr> tag_value = ''mouse'', category = Sample_Organism \<rparr>]" by simp
  from OSet_add_idempotent [of plain_stringify OSet_new
      "\<lparr> tag_value = ''mouse'', category = Sample_Organism \<rparr>"
      "[\<lparr> tag_value = ''mouse'', category = Sample_Organism \<rparr>,
        \<lparr> tag_value = ''open'', category = Software_Availability \<rparr>,
        \<lparr> tag_value = ''mouse'', category = Sample_Organism \<rparr>]"]
    plain_stringify_inj m
  show ?thesis by blast
qed

lemma OSet_add_step:
  assumes "inj stringify"
    and "distinct (map fst s) \<and> (\<forall>p \<in> set s. fst p = stringify (snd p)) \<and> set (elements s) = A"
  shows "distinct (map fst (OSet_add stringify s e))
       \<and> (\<forall>p \<in> set (OSet_add stringify s e). fst p = stringify (snd p))
       \<and> set (elements (OSet_add stringify s e)) = insert e A"
  using OSet_add_keyed [of s stringify e] OSet_add_elements [OF assms(1), of s e] assms(2)
  by blast

lemma foldl_OSet_add_step:
  assumes "inj stringify"
    and "distinct (map fst s) \<and> (\<forall>p \<in> set s. fst p = stringify (snd p)) \<and> set (elements s) = A"
  shows "distinct (map fst (foldl (\<lambda>tags val. OSet_add stringify tags (f val)) s vals))
       \<and> (\<forall>p \<in> set (foldl (\<lambda>tags val. OSet_add stringify tags (f val)) s vals).
             fst p = stringify (snd p))
       \<and> set (elements (foldl (\<lambda>tags val. OSet_add stringify tags (f val)) s vals))
           = f ` set vals \<union> A"
  using foldl_OSet_add [OF assms(1), of s f vals] assms(2) by blast

text \<open>The tags of a dataset, \<open>JSON.stringify\<close> being injective.\<close>

lemma makeTags_elements:
  assumes inj: "inj stringify"
  shows "set (elements (makeTags stringify fmt descr)) =
     {\<lparr> tag_value = softwareAvailability descr, category = Software_Availability \<rparr>}
     \<union> (if values_y (gridSpacing_values (gridSpacing (imaging descr))) \<noteq> None
            \<or> values_x (gridSpacing_values (gridSpacing (imaging descr))) \<noteq> None
         then {\<lparr> tag_value = Number_toString fmt
                    (Math_min (values_y (gridSpacing_values (gridSpacing (imaging descr))))
                       (values_x (gridSpacing_values (gridSpacing (imaging descr))))),
                  category = Lateral_voxel_size \<rparr>}
         else {})
     \<union> (case values_z (gridSpacing_values (gridSpacing (imaging descr))) of
           None \<Rightarrow> {}
         | Some z \<Rightarrow>
             {\<lparr> tag_value = (if z \<le> resolutionTagThreshold
                   then ''<= '' @ Number_toString fmt (Num resolutionTagThreshold) @ '' nm''
                   else ''> '' @ Number_toString fmt (Num resolutionTagThreshold) @ '' nm''),
                category = Axial_voxel_size \<rparr>})
     \<union> (\<lambda>val. \<lparr> tag_value = val, category = Sample_Treatment \<rparr>) ` set (treatment (sample descr))
     \<union> (\<lambda>val. \<lparr> tag_value = val, category = Sample_Subtype \<rparr>) ` set (subtype (sample descr))
     \<union> (\<lambda>val. \<lparr> tag_value = val, category = Sample_Type \<rparr>) ` set (sample_type (sample descr))
     \<union> (\<lambda>val. \<lparr> tag_value = val, category = Sample_Organism \<rparr>) ` set (organism (sample descr))
     \<union> (\<lambda>val. \<lparr> tag_value = val, category = Contributing_institution \<rparr>) ` set (institution descr)
     \<union> {\<lparr> tag_value = imaging_institution (imaging descr), category = Acquisition_institution \<rparr>}"
proof -
  define inv where "inv s A \<longleftrightarrow> distinct (map fst s) \<and> (\<forall>p \<in> set s. fst p = stringify (snd p))
      \<and> set (elements s) = A" for s :: "ITag OSet" and A
  have add: "inv (OSet_add stringify s e) (insert e A)" if "inv s A" for s A e
    using OSet_add_step [OF inj, of s A e] that by (simp add: inv_def)
  have fold: "inv (foldl (\<lambda>tags val. OSet_add stringify tags (f val)) s vals) (f ` set vals \<union> A)"
    if "inv s A" for s A and f :: "string \<Rightarrow> ITag" and vals
    using foldl_OSet_add_step [OF inj, of s A f vals] that by (simp add: inv_def)
  define t0 where "t0 = OSet_add stringify OSet_new
      \<lparr> tag_value = imaging_institution (imaging descr), category = Acquisition_institution \<rparr>"
  define t1 where "t1 = foldl (\<lambda>tags val. OSet_add stringify tags
      \<lparr> tag_value = val, category = Contributing_institution \<rparr>) t0 (institution descr)"
  define t2 where "t2 = foldl (\<lambda>tags val. OSet_add stringify tags
      \<lparr> tag_value = val, category = Sample_Organism \<rparr>) t1 (organism (sample descr))"
  define t3 where "t3 = foldl (\<lambda>tags val. OSet_add stringify tags
      \<lparr> tag_value = val, category = Sample_Type \<rparr>) t2 (sample_type (sample descr))"
  define t4 where "t4 = foldl (\<lambda>tags val. OSet_add stringify tags
      \<lparr> tag_value = val, category = Sample_Subtype \<rparr>) t3 (subtype (sample descr))"
  define t5 where "t5 = foldl (\<lambda>tags val. OSet_add stringify tags
      \<lparr> tag_value = val, category = Sample_Treatment \<rparr>) t4 (treatment (sample descr))"
  define ax where "ax = (case values_z (gridSpacing_values (gridSpacing (imaging descr))) of
           None \<Rightarrow> {}
         | Some z \<Rightarrow>
             {\<lparr> tag_value = (if z \<le> resolutionTagThreshold
                   then ''<= '' @ Number_toString fmt (Num resolutionTagThreshold) @ '' nm''
                   else ''> '' @ Number_toString fmt (Num resolutionTagThreshold) @ '' nm''),
                category = Axial_voxel_size \<rparr>})"
  define t6 where "t6 = (case values_z (gridSpacing_values (gridSpacing (imaging descr))) of
           None \<Rightarrow> t5
         | Some z \<Rightarrow> OSet_add stringify t5
             \<lparr> tag_value = (if z \<le> resolutionTagThreshold
                   then ''<= '' @ Number_toString fmt (Num resolutionTagThreshold) @ '' nm''
                   else ''> '' @ Number_toString fmt (Num resolutionTagThreshold) @ '' nm''),
                category = Axial_voxel_size \<rparr>)"
  define lat where "lat = (if values_y (gridSpacing_values (gridSpacing (imaging descr))) \<noteq> None
            \<or> values_x (gridSpacing_values (gridSpacing (imaging descr))) \<noteq> None
         then {\<lparr> tag_value = Number_toString fmt
                    (Math_min (values_y (gridSpacing_values (gridSpacing (imaging descr))))
                       (values_x (gridSpacing_values (gridSpacing (imaging descr))))),
                  category = Lateral_voxel_size \<rparr>}
         else {})"
  define t7 where "t7 = (if values_y (gridSpacing_values (gridSpacing (imaging descr))) \<noteq> None
            \<or> values_x (gridSpacing_values (gridSpacing (imaging descr))) \<noteq> None
         then OSet_add stringify t6
                \<lparr> tag_value = Number_toString fmt
                    (Math_min (values_y (gridSpacing_values (gridSpacing (imaging descr))))
                       (values_x (gridSpacing_values (gridSpacing (imaging descr))))),
                  category = Lateral_voxel_size \<rparr>
         else t6)"
  define A0 where "A0 = {\<lparr> tag_value = imaging_institution (imaging descr),
                           category = Acquisition_institution \<rparr>}"
  define A1 where "A1 = (\<lambda>val. \<lparr> tag_value = val, category = Contributing_institution \<rparr>)
                          ` set (institution descr) \<union> A0"
  define A2 where "A2 = (\<lambda>val. \<lparr> tag_value = val, category = Sample_Organism \<rparr>)
                          ` set (organism (sample descr)) \<union> A1"
  define A3 where "A3 = (\<lambda>val. \<lparr> tag_value = val, category = Sample_Type \<rparr>)
                          ` set (sample_type (sample descr)) \<union> A2"
  define A4 where "A4 = (\<lambda>val. \<lparr> tag_value = val, category = Sample_Subtype \<rparr>)
                          ` set (subtype (sample descr)) \<union> A3"
  define A5 where "A5 = (\<lambda>val. \<lparr> tag_value = val, category = Sample_Treatment \<rparr>)
                          ` set (treatment (sample descr)) \<union> A4"
  have "inv OSet_new {}" by (simp add: inv_def OSet_new_def elements_def)
  then have i0: "inv t0 A0" unfolding t0_def A0_def by (rule add)
  then have i1: "inv t1 A1" unfolding t1_def A1_def by (rule fold)
  then have i2: "inv t2 A2" unfolding t2_def A2_def by (rule fold)
  then have i3: "inv t3 A3" unfolding t3_def A3_def by (rule fold)
  then have i4: "inv t4 A4" unfolding t4_def A4_def by (rule fold)
  then have i5: "inv t5 A5" unfolding t5_def A5_def by (rule fold)
  have i6: "inv t6 (ax \<union> A5)"
  proof (cases "values_z (gridSpacing_values (gridSpacing (imaging descr)))")
    case None
    then show ?thesis using i5 by (simp add: t6_def ax_def)
  next
    case (Some z)
    then show ?thesis using add [OF i5] by (simp add: t6_def ax_def)
  qed
  have i7: "inv t7 (lat \<union> (ax \<union> A5))"
    using add [OF i6] i6 by (simp add: t7_def lat_def)
  have "inv (OSet_add stringify t7
           \<lparr> tag_value = softwareAvailability descr, category = Software_Availability \<rparr>)
         (insert \<lparr> tag_value = softwareAvailability descr, category = Software_Availability \<rparr>
            (lat \<union> (ax \<union> A5)))"
    using i7 by (rule add)
  moreover have "makeTags stringify fmt descr = OSet_add stringify t7
           \<lparr> tag_value = softwareAvailability descr, category = Software_Availability \<rparr>"
    unfolding makeTags_def Let_def t7_def t6_def t5_def t4_def t3_def t2_def t1_def t0_def
    by (rule refl)
  ultimately have "set (elements (makeTags stringify fmt descr)) =
      insert \<lparr> tag_value = softwareAvailability descr, category = Software_Availability \<rparr>
            (lat \<union> (ax \<union> A5))"
    by (simp add: inv_def)
  then show ?thesis
    unfolding lat_def ax_def A5_def A4_def A3_def A2_def A1_def A0_def
    by (simp only: Un_assoc insert_is_Un [symmetric] Un_insert_left Un_empty_left)
qed

lemma Number_toString_NaN: "Number_toString fmt NaN = ''NaN''"
  by (simp add: Number_toString_def)

section \<open>Properties of the dataset tags\<close>

text \<open>
  C6 (what the code does). \<open>JSON.stringify\<close> being injective, the tag set has no lateral
  voxel size tag when both x and y are absent, and exactly one when one of them is present:
  its value is the text of the minimum of x and y when both are present, and the text
  \<open>NaN\<close> when exactly one is present (\<open>Math.min\<close> of \<open>undefined\<close> and a number is NaN), not
  the text of the present value.
\<close>

theorem makeTags_lateral_voxel_size:
  assumes "inj stringify"
  shows "{t \<in> set (elements (makeTags stringify fmt descr)). category t = Lateral_voxel_size} =
     (case (values_x (gridSpacing_values (gridSpacing (imaging descr))),
            values_y (gridSpacing_values (gridSpacing (imaging descr)))) of
        (None, None) \<Rightarrow> {}
      | (Some a, Some b) \<Rightarrow>
          {\<lparr> tag_value = Number_toString fmt (Num (min b a)), category = Lateral_voxel_size \<rparr>}
      | _ \<Rightarrow> {\<lparr> tag_value = ''NaN'', category = Lateral_voxel_size \<rparr>})"
proof -
  define x where "x = values_x (gridSpacing_values (gridSpacing (imaging descr)))"
  define y where "y = values_y (gridSpacing_values (gridSpacing (imaging descr)))"
  have "{t \<in> set (elements (makeTags stringify fmt descr)). category t = Lateral_voxel_size}
      = (if y \<noteq> None \<or> x \<noteq> None
         then {\<lparr> tag_value = Number_toString fmt (Math_min y x), category = Lateral_voxel_size \<rparr>}
         else {})"
    unfolding makeTags_elements [OF assms] x_def [symmetric] y_def [symmetric]
    by (auto split: option.splits)
  also have "\<dots> = (case (x, y) of
        (None, None) \<Rightarrow> {}
      | (Some a, Some b) \<Rightarrow>
          {\<lparr> tag_value = Number_toString fmt (Num (min b a)), category = Lateral_voxel_size \<rparr>}
      | _ \<Rightarrow> {\<lparr> tag_value = ''NaN'', category = Lateral_voxel_size \<rparr>})"
    by (cases x; cases y) (simp_all add: Number_toString_NaN)
  finally show ?thesis unfolding x_def y_def .
qed

theorem makeTags_lateral_voxel_size_witness:
  "{t \<in> set (elements (makeTags plain_stringify plain_fmt only_x_metadata)).
      category t = Lateral_voxel_size}
     = {\<lparr> tag_value = ''NaN'', category = Lateral_voxel_size \<rparr>}
   \<and> {t \<in> set (elements (makeTags plain_stringify plain_fmt x_y_metadata)).
      category t = Lateral_voxel_size}
     = {\<lparr> tag_value = ''4'', category = Lateral_voxel_size \<rparr>}"
proof -
  have x: "values_x (gridSpacing_values (gridSpacing (imaging only_x_metadata))) = Some 8"
      "values_y (gridSpacing_values (gridSpacing (imaging only_x_metadata))) = None"
    by (simp_all add: only_x_metadata_def)
  have xy: "values_x (gridSpacing_values (gridSpacing (imaging x_y_metadata))) = Some 8"
      "values_y (gridSpacing_values (gridSpacing (imaging x_y_metadata))) = Some 4"
    by (simp_all add: x_y_metadata_def)
  have four: "Number_toString plain_fmt (Num (min 4 8)) = ''4''"
    by (simp add: Number_toString_def decimal.simps)
  show ?thesis
    using makeTags_lateral_voxel_size [OF plain_stringify_inj, of plain_fmt only_x_metadata]
      makeTags_lateral_voxel_size [OF plain_stringify_inj, of plain_fmt x_y_metadata]
    by (simp only: x xy four prod.case option.case simp_thms)
qed

lemma makeTags_only_x:
  "elements (makeTags plain_stringify plain_fmt only_x_metadata) =
     [\<lparr> tag_value = ''Janelia'', category = Acquisition_institution \<rparr>,
      \<lparr> tag_value = ''Janelia'', category = Contributing_institution \<rparr>,
      \<lparr> tag_value = ''mouse'', category = Sample_Organism \<rparr>,
      \<lparr> tag_value = ''NaN'', category = Lateral_voxel_size \<rparr>,
      \<lparr> tag_value = ''open'', category = Software_Availability \<rparr>]"
  by (simp add: makeTags_def only_x_metadata_def OSet_add_def OSet_new_def elements_def
        plain_stringify_def Number_toString_NaN)

lemma makeTags_x_y:
  "elements (makeTags plain_stringify plain_fmt x_y_metadata) =
     [\<lparr> tag_value = ''Janelia'', category = Acquisition_institution \<rparr>,
      \<lparr> tag_value = ''Janelia'', category = Contributing_institution \<rparr>,
      \<lparr> tag_value = ''mouse'', category = Sample_Organism \<rparr>,
      \<lparr> tag_value = ''4'', category = Lateral_voxel_size \<rparr>,
      \<lparr> tag_value = ''open'', category = Software_Availability \<rparr>]"
  by (simp add: makeTags_def x_y_metadata_def OSet_add_def OSet_new_def elements_def
        plain_stringify_def Number_toString_examples)

section \<open>Properties of the catalog loader\<close>

lemma Promise_all_rejected: "Promise_all ps = None \<longleftrightarrow> (\<exists>e. Inl e \<in> set ps)"
proof (induction ps)
  case Nil
  then show ?case by simp
next
  case (Cons p ps)
  then show ?case by (cases p) (auto split: option.splits)
qed

lemma Promise_all_fulfilled: "Promise_all ps = Some vs \<Longrightarrow> ps = map Inr vs"
proof (induction ps arbitrary: vs)
  case Nil
  then show ?case by simp
next
  case (Cons p ps)
  then show ?case by (cases p) (auto split: option.splits)
qed

lemma foldl_Map_set_keys:
  "set (map fst (foldl (\<lambda>m p. Map_set m (fst p) (snd p)) acc es))
     = set (map fst acc) \<union> set (map fst es)"
proof (induction es arbitrary: acc)
  case Nil
  then show ?case by simp
next
  case (Cons e es)
  show ?case unfolding foldl_Cons Cons.IH by (auto simp add: Map_set_keys)
qed

lemma Map_new_keys: "set (map fst (Map_new es)) = set (map fst es)"
  using foldl_Map_set_keys [of "[]" es] by (simp add: Map_new_def)

lemma foldl_Map_set_distinct:
  "distinct (map fst (acc @ es)) \<Longrightarrow> foldl (\<lambda>m p. Map_set m (fst p) (snd p)) acc es = acc @ es"
proof (induction es arbitrary: acc)
  case Nil
  then show ?case by simp
next
  case (Cons e es)
  from Cons.prems have fresh: "fst e \<notin> set (map fst acc)" by auto
  have "Map_set acc (fst e) (snd e) = acc @ [e]"
    using Map_set_fresh [OF fresh, of "snd e"] by simp
  moreover have "distinct (map fst ((acc @ [e]) @ es))" using Cons.prems by simp
  ultimately show ?case using Cons.IH [of "acc @ [e]"] by simp
qed

lemma Map_new_distinct: "distinct (map fst es) \<Longrightarrow> Map_new es = es"
  using foldl_Map_set_distinct [of "[]" es] by (simp add: Map_new_def)

text \<open>
  C8 (what the code does). When the index cannot be fetched, the failure is logged and the
  map is empty. When the index is fetched, one entry whose fetch fails rejects the whole
  promise: no map is returned and nothing is logged. Only when every entry is fetched is
  there a map, with one dataset for each key.
\<close>

theorem makeDatasets_outcomes:
  "makeDatasets stringify fmt (Inl err) API_get = ([IndexNotLoaded err], Some [])
   \<and> ((\<exists>key \<in> set keys. \<exists>e. API_get key = Inl e) \<longrightarrow>
         makeDatasets stringify fmt (Inr keys) API_get = ([], None))
   \<and> ((\<forall>key \<in> set keys. \<exists>r. API_get key = Inr r) \<longrightarrow>
         (\<exists>m. makeDatasets stringify fmt (Inr keys) API_get = ([], Some m)
            \<and> set (map fst m) = set keys))"
proof (intro conjI impI)
  show "makeDatasets stringify fmt (Inl err) API_get = ([IndexNotLoaded err], Some [])"
    by (simp add: makeDatasets_def)
next
  define step where "step = (\<lambda>dataset_key.
      case API_get dataset_key of
        Inl err \<Rightarrow> Inl err
      | Inr (thumbnail, manifest) \<Rightarrow>
          Inr (dataset_key,
               Dataset_new stringify fmt dataset_key outputDims
                 (Map_new (manifest_sources manifest)) (manifest_metadata manifest)
                 thumbnail (manifest_views manifest)))"
  have md: "makeDatasets stringify fmt (Inr keys) API_get =
      (case Promise_all (map step keys) of
         None \<Rightarrow> ([], None) | Some entries \<Rightarrow> ([], Some (Map_new entries)))"
    by (simp add: makeDatasets_def step_def)
  {
    assume "\<exists>key \<in> set keys. \<exists>e. API_get key = Inl e"
    then obtain key e where k: "key \<in> set keys" "API_get key = Inl e" by blast
    then have "step key = Inl e" by (simp add: step_def)
    with k(1) have "Inl e \<in> set (map step keys)" by force
    then have "Promise_all (map step keys) = None"
      using Promise_all_rejected by blast
    then show "makeDatasets stringify fmt (Inr keys) API_get = ([], None)"
      by (simp add: md)
  }
  {
    assume all: "\<forall>key \<in> set keys. \<exists>r. API_get key = Inr r"
    have "\<not> (\<exists>e. Inl e \<in> set (map step keys))"
    proof
      assume "\<exists>e. Inl e \<in> set (map step keys)"
      then obtain e where "Inl e \<in> step ` set keys" by auto
      then obtain key where "key \<in> set keys" "Inl e = step key" by blast
      then have "key \<in> set keys" "step key = Inl e" by simp_all
      with all show False by (auto simp add: step_def split: sum.splits)
    qed
    then obtain entries where en: "Promise_all (map step keys) = Some entries"
      using Promise_all_rejected [of "map step keys"] by (cases "Promise_all (map step keys)") auto
    then have "map step keys = map Inr entries" by (rule Promise_all_fulfilled)
    moreover have "\<forall>key \<in> set keys. \<exists>d. step key = Inr (key, d)"
      using all by (auto simp add: step_def split: sum.splits)
    ultimately have "map fst entries = keys"
      by (induction keys arbitrary: entries) auto
    then have "set (map fst (Map_new entries)) = set keys"
      by (simp only: Map_new_keys)
    then show "\<exists>m. makeDatasets stringify fmt (Inr keys) API_get = ([], Some m)
            \<and> set (map fst m) = set keys"
      by (simp add: md en)
  }
qed

theorem makeDatasets_outcomes_witness:
  "one_failing_get ''b'' = Inl FetchError
   \<and> makeDatasets plain_stringify plain_fmt (Inr [''a'', ''b'']) one_failing_get = ([], None)"
proof -
  have f: "one_failing_get ''b'' = Inl FetchError" by (simp add: one_failing_get_def)
  then have "\<exists>key \<in> set [''a'', ''b'']. \<exists>e. one_failing_get key = Inl e" by simp
  with makeDatasets_outcomes [of plain_stringify plain_fmt _ one_failing_get "[''a'', ''b'']"] f
  show ?thesis by blast
qed

text \<open>The earlier loop leaves out a dataset whose construction throws and goes on with
  the next key.\<close>

lemma makeDatasets_loop_catches:
  "getDescription key = Inr descr \<Longrightarrow> getDatasetIndex key = Inr (Some index) \<Longrightarrow>
   build key descr index = Inl err \<Longrightarrow>
   makeDatasets_loop getDescription getDatasetIndex build (key # keys) logged datasets
     = makeDatasets_loop getDescription getDatasetIndex build keys (logged @ [Caught err]) datasets"
  by simp

section \<open>Properties of the layer checkboxes\<close>

lemma handleLayerChange_held:
  "fst (handleLayerChange checkStates target_name target_checked)
     = Map_set (layerCheckState checkStates) target_name target_checked"
  by (simp add: handleLayerChange_def Let_def)

lemma handleLayerChange_one_checked:
  "handleLayerChange one_checked ''em'' False = ([(''em'', False), (''seg'', False)], None)"
  by (simp add: handleLayerChange_def one_checked_def Map_new_def)

text \<open>
  C10 (as amended). A state that \<open>handleLayerChange\<close> sets has at least one layer checked
  and the same view selection; unchecking the only checked layer sets no state; and the
  initial state has a checked layer exactly when the first view lists a volume key of the
  dataset.
\<close>

theorem handleLayerChange_keeps_selection:
  "(snd (handleLayerChange checkStates target_name target_checked) = Some newStates \<longrightarrow>
      (\<exists>k. (k, True) \<in> set (layerCheckState newStates))
      \<and> viewCheckState newStates = viewCheckState checkStates)
   \<and> (distinct (map fst (layerCheckState checkStates))
       \<and> (\<forall>p \<in> set (layerCheckState checkStates). snd p \<longrightarrow> fst p = target_name) \<longrightarrow>
      snd (handleLayerChange checkStates target_name False) = None)
   \<and> (distinct volumeKeys \<longrightarrow>
      ((\<exists>k. (k, True) \<in> set (layerCheckStateInit volumeKeys vkeys))
         \<longleftrightarrow> (\<exists>k \<in> set volumeKeys. k \<in> set vkeys)))"
proof -
  have a: "(\<exists>k. (k, True) \<in> set (layerCheckState newStates))
      \<and> viewCheckState newStates = viewCheckState checkStates"
    if "snd (handleLayerChange checkStates target_name target_checked) = Some newStates"
    using that by (auto simp add: handleLayerChange_def Let_def list_all_iff split: if_splits)
  have b: "snd (handleLayerChange checkStates target_name False) = None"
    if h: "distinct (map fst (layerCheckState checkStates))
       \<and> (\<forall>p \<in> set (layerCheckState checkStates). snd p \<longrightarrow> fst p = target_name)"
  proof -
    define held where "held = Map_set (layerCheckState checkStates) target_name False"
    have d: "distinct (map fst held)" using h by (simp add: held_def Map_set_distinct)
    have "set held = insert (target_name, False)
        {p \<in> set (layerCheckState checkStates). fst p \<noteq> target_name}"
      using h by (simp add: held_def Map_set_entries)
    with h have "\<forall>p \<in> set held. \<not> snd p" by auto
    then have "list_all (\<lambda>v. \<not> v) (map snd (Map_new held))"
      by (simp add: Map_new_distinct [OF d] list_all_iff)
    then show ?thesis
      by (simp add: handleLayerChange_def Let_def held_def)
  qed
  have c: "(\<exists>k. (k, True) \<in> set (layerCheckStateInit volumeKeys vkeys))
         \<longleftrightarrow> (\<exists>k \<in> set volumeKeys. k \<in> set vkeys)"
    if d: "distinct volumeKeys"
  proof -
    have "map fst (map (\<lambda>k. if k \<in> set vkeys then (k, True) else (k, False)) volumeKeys)
        = volumeKeys"
      by (induction volumeKeys) auto
    with d have "distinct (map fst
        (map (\<lambda>k. if k \<in> set vkeys then (k, True) else (k, False)) volumeKeys))"
      by simp
    then have "layerCheckStateInit volumeKeys vkeys
        = map (\<lambda>k. if k \<in> set vkeys then (k, True) else (k, False)) volumeKeys"
      unfolding layerCheckStateInit_def by (rule Map_new_distinct)
    then show ?thesis by (auto split: if_splits)
  qed
  from a b c show ?thesis by blast
qed

theorem handleLayerChange_keeps_selection_witness:
  "distinct (map fst (layerCheckState one_checked))
   \<and> snd (handleLayerChange one_checked ''em'' False) = None
   \<and> snd (handleLayerChange one_checked ''seg'' True)
       = Some \<lparr> layerCheckState = [(''em'', True), (''seg'', True)], viewCheckState = [True] \<rparr>"
proof -
  have d: "distinct (map fst (layerCheckState one_checked))" by (simp add: one_checked_def)
  have o: "\<forall>p \<in> set (layerCheckState one_checked). snd p \<longrightarrow> fst p = ''em''"
    by (simp add: one_checked_def)
  have "snd (handleLayerChange one_checked ''em'' False) = None"
    using handleLayerChange_keeps_selection [of one_checked "''em''"] d o by blast
  moreover have "snd (handleLayerChange one_checked ''seg'' True)
       = Some \<lparr> layerCheckState = [(''em'', True), (''seg'', True)], viewCheckState = [True] \<rparr>"
    by (simp add: handleLayerChange_def one_checked_def Map_new_def Let_def)
  ultimately show ?thesis using d by simp
qed

text \<open>
  C10 as stated fails in the initial state: for a dataset with the volumes \<open>em\<close> and
  \<open>seg\<close> whose first view lists no volume key, no layer is checked.
\<close>

theorem initial_selection_counterexample:
  "layerCheckStateInit [''em'', ''seg''] [] = [(''em'', False), (''seg'', False)]"
  by (simp add: layerCheckStateInit_def Map_new_def)

end
